theory Spec2Isabelle
  imports Complex_Main "HOL-Library.Sublist"
begin

section \<open>Python values and exceptions\<close>

text \<open>
  A Python \<open>float\<close> is an IEEE 754 double: a finite value, an infinity or a NaN. The two
  zeros are one value here (they compare equal and are both false). A number is an
  \<open>int\<close>, unbounded and exact, or a \<open>float\<close>.
\<close>

datatype pyfloat = Finite real | PInf | NInf | NaN

datatype number = PyInt int | PyFloat pyfloat

text \<open>
  The monitor works on decoded JSON documents. A decoded document is a Python object:
  \<open>None\<close>, a \<open>bool\<close>, a number, a \<open>str\<close>, a \<open>list\<close> or a \<open>dict\<close> with string keys.
  A \<open>dict\<close> is an association list in insertion order, read with \<open>map_of\<close>.
\<close>

datatype json =
    JNull
  | JBool bool
  | JNum number
  | JStr string
  | JArr "json list"
  | JObj "(string \<times> json) list"

datatype subscript = Key string | Idx int

text \<open>
  The exceptions the program can meet. \<open>HTTPError\<close> is the class of \<open>main.py\<close>
  (status and message); \<open>RequestException\<close> stands for every failure of
  \<open>requests.get\<close> before a response exists (connection, DNS, timeout);
  \<open>JSONDecodeError\<close> is what \<open>response.json()\<close> raises on a body that is not JSON;
  \<open>UndefinedValueError\<close> is what \<open>decouple.config\<close> raises for an option that is
  neither configured nor defaulted; \<open>OverflowError\<close> and \<open>ZeroDivisionError\<close> come from
  arithmetic.
\<close>

datatype py_error =
    KeyError subscript
  | IndexError
  | TypeError
  | ValueError
  | OverflowError
  | ZeroDivisionError
  | JSONDecodeError
  | RequestException
  | HTTPError int string
  | UndefinedValueError string

definition bind_e :: "py_error + 'a \<Rightarrow> ('a \<Rightarrow> py_error + 'b) \<Rightarrow> py_error + 'b" where
  "bind_e r f = (case r of Inl e \<Rightarrow> Inl e | Inr x \<Rightarrow> f x)"

text \<open>Python's \<open>seq[i]\<close> on a sequence of length \<open>n\<close>: indices from \<open>-n\<close> to \<open>n - 1\<close>.\<close>

definition py_index :: "'a list \<Rightarrow> int \<Rightarrow> py_error + 'a" where
  "py_index xs i =
     (let n = int (length xs); j = (if i < 0 then i + n else i)
      in if 0 \<le> j \<and> j < n then Inr (xs ! nat j) else Inl IndexError)"

text \<open>
  \<open>obj[s]\<close>. A \<open>dict\<close> raises \<open>KeyError\<close> for a key it does not hold (an integer is never
  a key of a decoded JSON object); a \<open>list\<close> or \<open>str\<close> takes integers only;
  \<open>None\<close>, booleans and numbers are not subscriptable.
\<close>

fun getitem :: "json \<Rightarrow> subscript \<Rightarrow> py_error + json" where
  "getitem (JObj kvs) (Key k) =
     (case map_of kvs k of None \<Rightarrow> Inl (KeyError (Key k)) | Some v \<Rightarrow> Inr v)"
| "getitem (JObj kvs) (Idx i) = Inl (KeyError (Idx i))"
| "getitem (JArr xs) (Idx i) = py_index xs i"
| "getitem (JArr xs) (Key k) = Inl TypeError"
| "getitem (JStr s) (Idx i) = bind_e (py_index s i) (\<lambda>c. Inr (JStr [c]))"
| "getitem (JStr s) (Key k) = Inl TypeError"
| "getitem JNull s = Inl TypeError"
| "getitem (JBool b) s = Inl TypeError"
| "getitem (JNum x) s = Inl TypeError"

subsection \<open>Arithmetic\<close>

text \<open>
  Rounding a real to the nearest double, ties to the even significand. The unit in the
  last place of \<open>x\<close> is \<open>2\<close> to the power \<open>ulp_exponent x\<close>: 52 binary places below the
  leading bit of \<open>x\<close>, and \<open>-1074\<close> throughout the subnormal range. A result of magnitude
  \<open>2 ^ 1024\<close> or more is an infinity.
\<close>

definition round_half_even :: "real \<Rightarrow> int" where
  "round_half_even x =
     (let f = \<lfloor>x\<rfloor>; d = x - of_int f
      in if d < 1 / 2 then f else if 1 / 2 < d then f + 1 else if even f then f else f + 1)"

definition ulp_exponent :: "real \<Rightarrow> int" where
  "ulp_exponent x = (if \<bar>x\<bar> < 2 powi (- 1022) then - 1074 else \<lfloor>log 2 \<bar>x\<bar>\<rfloor> - 52)"

definition round_double :: "real \<Rightarrow> real" where
  "round_double x = of_int (round_half_even (x / 2 powi ulp_exponent x)) * 2 powi ulp_exponent x"

definition float_of_real :: "real \<Rightarrow> pyfloat" where
  "float_of_real x =
     (let r = round_double x
      in if 2 ^ 1024 \<le> r then PInf else if r \<le> - (2 ^ 1024) then NInf else Finite r)"

text \<open>\<open>float(i)\<close> of an \<open>int\<close>, also where an \<open>int\<close> meets a \<open>float\<close> in an operation.\<close>

definition int_to_float :: "int \<Rightarrow> py_error + pyfloat" where
  "int_to_float i =
     (case float_of_real (of_int i) of Finite r \<Rightarrow> Inr (Finite r) | _ \<Rightarrow> Inl OverflowError)"

text \<open>Sum, negation, difference and quotient of floats: the exact result, rounded.\<close>

fun float_add :: "pyfloat \<Rightarrow> pyfloat \<Rightarrow> pyfloat" where
  "float_add (Finite x) (Finite y) = float_of_real (x + y)"
| "float_add NaN y = NaN"
| "float_add x NaN = NaN"
| "float_add PInf NInf = NaN"
| "float_add NInf PInf = NaN"
| "float_add PInf y = PInf"
| "float_add x PInf = PInf"
| "float_add NInf y = NInf"
| "float_add x NInf = NInf"

fun float_neg :: "pyfloat \<Rightarrow> pyfloat" where
  "float_neg (Finite x) = Finite (- x)"
| "float_neg PInf = NInf"
| "float_neg NInf = PInf"
| "float_neg NaN = NaN"

definition float_sub :: "pyfloat \<Rightarrow> pyfloat \<Rightarrow> pyfloat" where
  "float_sub x y = float_add x (float_neg y)"

fun float_quotient :: "pyfloat \<Rightarrow> pyfloat \<Rightarrow> pyfloat" where
  "float_quotient (Finite x) (Finite y) = float_of_real (x / y)"
| "float_quotient NaN y = NaN"
| "float_quotient x NaN = NaN"
| "float_quotient (Finite x) y = Finite 0"
| "float_quotient PInf (Finite y) = (if 0 < y then PInf else NInf)"
| "float_quotient NInf (Finite y) = (if 0 < y then NInf else PInf)"
| "float_quotient x y = NaN"

definition float_div :: "pyfloat \<Rightarrow> pyfloat \<Rightarrow> py_error + pyfloat" where
  "float_div x y = (if y = Finite 0 then Inl ZeroDivisionError else Inr (float_quotient x y))"

text \<open>\<open>a + b\<close>: exact on two \<open>int\<close>s, in floats as soon as one operand is a \<open>float\<close>.\<close>

fun py_add :: "number \<Rightarrow> number \<Rightarrow> py_error + number" where
  "py_add (PyInt a) (PyInt b) = Inr (PyInt (a + b))"
| "py_add (PyInt a) (PyFloat y) = bind_e (int_to_float a) (\<lambda>x. Inr (PyFloat (float_add x y)))"
| "py_add (PyFloat x) (PyInt b) = bind_e (int_to_float b) (\<lambda>y. Inr (PyFloat (float_add x y)))"
| "py_add (PyFloat x) (PyFloat y) = Inr (PyFloat (float_add x y))"

text \<open>
  \<open>a / b\<close>: always a \<open>float\<close>. The quotient of two \<open>int\<close>s is their exact quotient rounded
  once, \<open>OverflowError\<close> where that is no finite double.
\<close>

fun py_truediv :: "number \<Rightarrow> number \<Rightarrow> py_error + pyfloat" where
  "py_truediv (PyInt a) (PyInt b) =
     (if b = 0 then Inl ZeroDivisionError
      else case float_of_real (of_int a / of_int b) of
             Finite r \<Rightarrow> Inr (Finite r)
           | _ \<Rightarrow> Inl OverflowError)"
| "py_truediv (PyInt a) (PyFloat y) = bind_e (int_to_float a) (\<lambda>x. float_div x y)"
| "py_truediv (PyFloat x) (PyInt b) = bind_e (int_to_float b) (\<lambda>y. float_div x y)"
| "py_truediv (PyFloat x) (PyFloat y) = float_div x y"

text \<open>
  Comparison is by exact value, also between an \<open>int\<close> and a \<open>float\<close>; a NaN is neither
  below nor above anything.
\<close>

fun float_less :: "pyfloat \<Rightarrow> pyfloat \<Rightarrow> bool" where
  "float_less (Finite x) (Finite y) = (x < y)"
| "float_less NaN y = False"
| "float_less x NaN = False"
| "float_less x NInf = False"
| "float_less PInf y = False"
| "float_less NInf y = True"
| "float_less x PInf = True"

fun number_value :: "number \<Rightarrow> pyfloat" where
  "number_value (PyInt i) = Finite (of_int i)"
| "number_value (PyFloat x) = x"

definition number_less :: "number \<Rightarrow> number \<Rightarrow> bool" where
  "number_less a b = float_less (number_value a) (number_value b)"

text \<open>
  Formatting with \<open>:.2f\<close> turns an \<open>int\<close> into a \<open>float\<close> first; only whether that raises
  matters here, the log lines of the model hold the values and not their digits.
\<close>

fun format_2f :: "number \<Rightarrow> py_error + unit" where
  "format_2f (PyInt i) = bind_e (int_to_float i) (\<lambda>x. Inr ())"
| "format_2f (PyFloat x) = Inr ()"

subsection \<open>Objects\<close>

text \<open>Truth value of an object, as \<open>if obj:\<close> tests it.\<close>

fun truthy :: "json \<Rightarrow> bool" where
  "truthy JNull = False"
| "truthy (JBool b) = b"
| "truthy (JNum (PyInt i)) = (i \<noteq> 0)"
| "truthy (JNum (PyFloat (Finite x))) = (x \<noteq> 0)"
| "truthy (JNum (PyFloat PInf)) = True"
| "truthy (JNum (PyFloat NInf)) = True"
| "truthy (JNum (PyFloat NaN)) = True"
| "truthy (JStr s) = (s \<noteq> [])"
| "truthy (JArr xs) = (xs \<noteq> [])"
| "truthy (JObj kvs) = (kvs \<noteq> [])"

text \<open>The numeric value of an object in arithmetic and comparisons: \<open>True\<close> is 1.\<close>

fun num_of :: "json \<Rightarrow> number option" where
  "num_of (JNum x) = Some x"
| "num_of (JBool b) = Some (PyInt (if b then 1 else 0))"
| "num_of JNull = None"
| "num_of (JStr s) = None"
| "num_of (JArr xs) = None"
| "num_of (JObj kvs) = None"

text \<open>\<open>v > c\<close> and \<open>v < c\<close> of an object and a number.\<close>

definition py_gt :: "json \<Rightarrow> number \<Rightarrow> py_error + bool" where
  "py_gt v c = (case num_of v of None \<Rightarrow> Inl TypeError | Some x \<Rightarrow> Inr (number_less c x))"

definition py_lt :: "json \<Rightarrow> number \<Rightarrow> py_error + bool" where
  "py_lt v c = (case num_of v of None \<Rightarrow> Inl TypeError | Some x \<Rightarrow> Inr (number_less x c))"

text \<open>
  \<open>sum(xs)\<close> starts from the \<open>int\<close> 0 and adds the items from left to right, each sum of
  floats rounded; it raises \<open>TypeError\<close> at the first item that is not a number. (This is
  \<open>sum\<close> up to CPython 3.11; from 3.12 on it also carries a compensation term for the
  rounding errors of floats, which is not modelled.)
\<close>

fun sum_from :: "number \<Rightarrow> json list \<Rightarrow> py_error + number" where
  "sum_from acc [] = Inr acc"
| "sum_from acc (c # cs) =
     (case num_of c of
        None \<Rightarrow> Inl TypeError
      | Some n \<Rightarrow> bind_e (py_add acc n) (\<lambda>a. sum_from a cs))"

definition py_sum :: "json list \<Rightarrow> py_error + number" where
  "py_sum xs = sum_from (PyInt 0) xs"

text \<open>Iteration \<open>for c in obj\<close>: the items of a list, the characters of a string, the keys of a dict.\<close>

fun iterate :: "json \<Rightarrow> py_error + json list" where
  "iterate (JArr xs) = Inr xs"
| "iterate (JStr s) = Inr (map (\<lambda>c. JStr [c]) s)"
| "iterate (JObj kvs) = Inr (map (\<lambda>kv. JStr (fst kv)) kvs)"
| "iterate JNull = Inl TypeError"
| "iterate (JBool b) = Inl TypeError"
| "iterate (JNum x) = Inl TypeError"

text \<open>
  \<open>float(obj)\<close>. How Python reads a string as a float is the parameter \<open>sf\<close>
  (\<open>None\<close> where \<open>float\<close> raises \<open>ValueError\<close>, as on the marker \<open>"."\<close> of a series
  without a value).
\<close>

fun py_float :: "(string \<Rightarrow> pyfloat option) \<Rightarrow> json \<Rightarrow> py_error + pyfloat" where
  "py_float sf (JStr s) = (case sf s of None \<Rightarrow> Inl ValueError | Some x \<Rightarrow> Inr x)"
| "py_float sf (JNum (PyInt i)) = int_to_float i"
| "py_float sf (JNum (PyFloat x)) = Inr x"
| "py_float sf (JBool b) = Inr (Finite (if b then 1 else 0))"
| "py_float sf JNull = Inl TypeError"
| "py_float sf (JArr xs) = Inl TypeError"
| "py_float sf (JObj kvs) = Inl TypeError"

text \<open>\<open>xs[-k:]\<close>: the last \<open>k\<close> items, all of them when there are fewer.\<close>

definition last_items :: "nat \<Rightarrow> 'a list \<Rightarrow> 'a list" where
  "last_items k xs = drop (length xs - k) xs"

text \<open>
  \<open>str(b)\<close> of a \<open>bytes\<close> object: its literal, \<open>b'...'\<close>, in double quotes when the bytes
  hold a single quote and no double quote.
\<close>

definition hex_digit :: "nat \<Rightarrow> char" where
  "hex_digit n = ''0123456789abcdef'' ! (n mod 16)"

definition escape_byte :: "char \<Rightarrow> char \<Rightarrow> string" where
  "escape_byte quote c =
     (if c = quote \<or> c = CHR 0x5C then [CHR 0x5C, c]
      else if c = CHR 0x09 then [CHR 0x5C, CHR ''t'']
      else if c = CHR 0x0A then [CHR 0x5C, CHR ''n'']
      else if c = CHR 0x0D then [CHR 0x5C, CHR ''r'']
      else if (of_char c :: nat) < 32 \<or> (of_char c :: nat) \<ge> 127
        then [CHR 0x5C, CHR ''x'', hex_digit (of_char c div 16), hex_digit (of_char c mod 16)]
      else [c])"

definition bytes_str :: "string \<Rightarrow> string" where
  "bytes_str bs =
     (let quote = (if CHR 0x27 \<in> set bs \<and> CHR 0x22 \<notin> set bs then CHR 0x22 else CHR 0x27)
      in [CHR ''b'', quote] @ concat (map (escape_byte quote) bs) @ [quote])"

section \<open>The world: network, log file, clock\<close>

text \<open>
  A request as the program hands it to \<open>requests.get\<close>: the URL, the \<open>headers=\<close>
  argument and the \<open>timeout=\<close> argument in seconds, \<open>None\<close> where the call site gives none.
\<close>

record request =
  url :: string
  headers :: "(string \<times> string) list option"
  timeout :: "real option"

text \<open>
  A response: its status, its body, and what \<open>response.json()\<close> makes of the body
  (\<open>None\<close> where the body is not JSON).
\<close>

record response =
  status_code :: int
  content :: string
  json_body :: "json option"

datatype net_result = Failed | Responded response

text \<open>The network answers the \<open>n\<close>-th request of the process (counted from 0).\<close>

type_synonym network = "nat \<Rightarrow> request \<Rightarrow> net_result"

text \<open>
  One line of the log, \<open>[timestamp] message\<close>, without its timestamp: which of the
  program's message templates it is, and the values formatted into it.
\<close>

datatype log_line =
    Monitor_Started
  | VIX_ALERT json
  | VIX_Warning json
  | VIX_Normal json
  | SP500_Below json pyfloat
  | SP500_Above json pyfloat
  | YC_Deep_Inversion pyfloat pyfloat pyfloat
  | YC_Normal pyfloat
  | Error_VIX py_error
  | Error_SP500 py_error
  | Error_YC py_error

record world =
  sent :: "request list"
  logfile :: "log_line list"
  slept :: "int list"

text \<open>A Python call runs in the world and returns a value or raises.\<close>

type_synonym 'a py = "world \<Rightarrow> (py_error + 'a) \<times> world"

definition py_return :: "'a \<Rightarrow> 'a py" where
  "py_return x w = (Inr x, w)"

definition py_raise :: "py_error \<Rightarrow> 'a py" where
  "py_raise e w = (Inl e, w)"

definition py_lift :: "py_error + 'a \<Rightarrow> 'a py" where
  "py_lift r w = (r, w)"

definition py_bind :: "'a py \<Rightarrow> ('a \<Rightarrow> 'b py) \<Rightarrow> 'b py" where
  "py_bind m f w = (case m w of (Inl e, w') \<Rightarrow> (Inl e, w') | (Inr x, w') \<Rightarrow> f x w')"

text \<open>\<open>try: m except Exception as e: h e\<close>\<close>

definition py_try :: "'a py \<Rightarrow> (py_error \<Rightarrow> 'a py) \<Rightarrow> 'a py" where
  "py_try m h w = (case m w of (Inl e, w') \<Rightarrow> h e w' | (Inr x, w') \<Rightarrow> (Inr x, w'))"

text \<open>
  \<open>log(message)\<close> appends the line to the log file and prints it. Opening and writing
  the file are taken to succeed.
\<close>

definition log_msg :: "log_line \<Rightarrow> unit py" where
  "log_msg m w = (Inr (), w\<lparr>logfile := logfile w @ [m]\<rparr>)"

text \<open>
  \<open>time.sleep(secs)\<close> of an \<open>int\<close>: \<open>OverflowError\<close> where the length in nanoseconds
  does not fit 64 signed bits, else \<open>ValueError\<close> on a negative length.
\<close>

definition sleep :: "int \<Rightarrow> unit py" where
  "sleep secs w =
     (if secs * 10 ^ 9 < - (2 ^ 63) \<or> 2 ^ 63 - 1 < secs * 10 ^ 9 then (Inl OverflowError, w)
      else if secs < 0 then (Inl ValueError, w)
      else (Inr (), w\<lparr>slept := slept w @ [secs]\<rparr>))"

definition requests_get :: "network \<Rightarrow> request \<Rightarrow> response py" where
  "requests_get net rq w =
     (case net (length (sent w)) rq of
        Failed \<Rightarrow> Inl RequestException
      | Responded r \<Rightarrow> Inr r,
      w\<lparr>sent := sent w @ [rq]\<rparr>)"

definition response_json :: "response \<Rightarrow> py_error + json" where
  "response_json r = (case json_body r of None \<Rightarrow> Inl JSONDecodeError | Some j \<Rightarrow> Inr j)"

section \<open>Configuration\<close>

text \<open>
  \<open>decouple.config(name, default, cast)\<close> over the environment \<open>env\<close>: the configured
  value if there is one, else the default if one was given, else \<open>UndefinedValueError\<close>;
  the value then goes through \<open>cast\<close>. The defaults of this program are already
  of the type their cast produces, and the cast returns them as they are.
\<close>

definition config :: "(string \<rightharpoonup> string) \<Rightarrow> string \<Rightarrow> 'a option \<Rightarrow> (string \<Rightarrow> py_error + 'a) \<Rightarrow> py_error + 'a" where
  "config env name dflt cast =
     (case env name of
        Some v \<Rightarrow> cast v
      | None \<Rightarrow> (case dflt of None \<Rightarrow> Inl (UndefinedValueError name) | Some d \<Rightarrow> Inr d))"

record settings =
  FRED_API_KEY :: string
  LOG_FILE :: string
  CHECK_INTERVAL_MINUTES :: int

text \<open>
  The three module-level assignments, in order. How \<open>int\<close> reads a string is the
  parameter \<open>si\<close> (\<open>None\<close> where it raises \<open>ValueError\<close>).
\<close>

definition load_settings :: "(string \<Rightarrow> int option) \<Rightarrow> (string \<rightharpoonup> string) \<Rightarrow> py_error + settings" where
  "load_settings si env =
     bind_e (config env ''FRED_API_KEY'' None Inr) (\<lambda>k.
     bind_e (config env ''LOG_FILE'' (Some ''market_triggers.log'') Inr) (\<lambda>f.
     bind_e (config env ''CHECK_INTERVAL_MINUTES'' (Some 30)
               (\<lambda>s. case si s of None \<Rightarrow> Inl ValueError | Some n \<Rightarrow> Inr n)) (\<lambda>n.
     Inr \<lparr>FRED_API_KEY = k, LOG_FILE = f, CHECK_INTERVAL_MINUTES = n\<rparr>)))"

section \<open>The HTTP wrapper\<close>

definition HEADERS :: "(string \<times> string) list" where
  "HEADERS =
     [(''User-Agent'',
       ''Mozilla/5.0 (Windows NT 10.0; Win64; x64) '' @
       ''AppleWebKit/537.36 (KHTML, like Gecko) '' @
       ''Chrome/115.0 Safari/537.36''),
      (''Accept'', ''application/json,text/plain,*/*''),
      (''Accept-Language'', ''en-US,en;q=0.9'')]"

definition get :: "network \<Rightarrow> string \<Rightarrow> real \<Rightarrow> json py" where
  "get net u t =
     py_bind (requests_get net \<lparr>url = u, headers = Some HEADERS, timeout = Some t\<rparr>) (\<lambda>response.
       if status_code response \<noteq> 200
       then py_raise (HTTPError (status_code response) (bytes_str (content response)))
       else py_lift (response_json response))"

section \<open>The indicator fetchers\<close>

definition VIX_URL :: string where
  "VIX_URL = ''https://query1.finance.yahoo.com/v8/finance/chart/^VIX''"

definition SP500_URL :: string where
  "SP500_URL = ''https://query1.finance.yahoo.com/v8/finance/chart/^GSPC?range=1y&interval=1d''"

definition url_2y :: "string \<Rightarrow> string" where
  "url_2y key =
     ''https://api.stlouisfed.org/fred/series/observations?series_id=DGS2&api_key='' @ key @
     ''&file_type=json''"

definition url_10y :: "string \<Rightarrow> string" where
  "url_10y key =
     ''https://api.stlouisfed.org/fred/series/observations?series_id=DGS10&api_key='' @ key @
     ''&file_type=json''"

text \<open>\<open>data["chart"]["result"][0]["meta"]["regularMarketPrice"]\<close>\<close>

definition vix_lookup :: "json \<Rightarrow> py_error + json" where
  "vix_lookup data =
     bind_e (getitem data (Key ''chart'')) (\<lambda>a.
     bind_e (getitem a (Key ''result'')) (\<lambda>b.
     bind_e (getitem b (Idx 0)) (\<lambda>c.
     bind_e (getitem c (Key ''meta'')) (\<lambda>d.
     getitem d (Key ''regularMarketPrice'')))))"

text \<open>The \<open>try\<close> block of \<open>check_vix\<close>.\<close>

definition check_vix_try :: "network \<Rightarrow> json py" where
  "check_vix_try net = py_bind (get net VIX_URL 30) (\<lambda>data. py_lift (vix_lookup data))"

text \<open>\<open>check_vix\<close> returns the price object, or \<open>None\<close> (here \<open>JNull\<close>) after logging.\<close>

definition check_vix :: "network \<Rightarrow> json py" where
  "check_vix net =
     py_try (check_vix_try net)
       (\<lambda>e. py_bind (log_msg (Error_VIX e)) (\<lambda>_. py_return JNull))"

text \<open>\<open>data["chart"]["result"][0]["indicators"]["quote"][0]["close"]\<close>\<close>

definition closes_lookup :: "json \<Rightarrow> py_error + json" where
  "closes_lookup data =
     bind_e (getitem data (Key ''chart'')) (\<lambda>a.
     bind_e (getitem a (Key ''result'')) (\<lambda>b.
     bind_e (getitem b (Idx 0)) (\<lambda>c.
     bind_e (getitem c (Key ''indicators'')) (\<lambda>d.
     bind_e (getitem d (Key ''quote'')) (\<lambda>e.
     bind_e (getitem e (Idx 0)) (\<lambda>f.
     getitem f (Key ''close'')))))))"

text \<open>
  From the \<open>close\<close> object to the result of \<open>check_sp500_200ma\<close>: drop the \<open>None\<close>
  entries; with 200 or more left, the pair of the last one and the sum of the last 200
  divided by 200; else \<open>None\<close>.
\<close>

definition ma200_of_closes :: "json \<Rightarrow> py_error + (json \<times> pyfloat) option" where
  "ma200_of_closes obj =
     bind_e (iterate obj) (\<lambda>cs.
       let closes = filter (\<lambda>c. c \<noteq> JNull) cs in
       if length closes \<ge> 200
       then bind_e (py_sum (last_items 200 closes)) (\<lambda>s.
            bind_e (py_truediv s (PyInt 200)) (\<lambda>ma200.
            bind_e (py_index closes (-1)) (\<lambda>last_price.
            Inr (Some (last_price, ma200)))))
       else Inr None)"

definition check_sp500_200ma_try :: "network \<Rightarrow> (json \<times> pyfloat) option py" where
  "check_sp500_200ma_try net =
     py_bind (get net SP500_URL 30) (\<lambda>data.
       py_lift (bind_e (closes_lookup data) ma200_of_closes))"

definition check_sp500_200ma :: "network \<Rightarrow> (json \<times> pyfloat) option py" where
  "check_sp500_200ma net =
     py_try (check_sp500_200ma_try net)
       (\<lambda>e. py_bind (log_msg (Error_SP500 e)) (\<lambda>_. py_return None))"

text \<open>\<open>requests.get(u).json()["observations"][-1]\<close>: no headers, no timeout, no look at the status.\<close>

definition last_observation :: "network \<Rightarrow> string \<Rightarrow> json py" where
  "last_observation net u =
     py_bind (requests_get net \<lparr>url = u, headers = None, timeout = None\<rparr>) (\<lambda>response.
       py_lift (bind_e (response_json response) (\<lambda>j.
                bind_e (getitem j (Key ''observations'')) (\<lambda>obs.
                getitem obs (Idx (-1))))))"

definition check_yield_curve_try :: "(string \<Rightarrow> pyfloat option) \<Rightarrow> string \<Rightarrow> network \<Rightarrow> (pyfloat \<times> pyfloat \<times> pyfloat) option py" where
  "check_yield_curve_try sf key net =
     py_bind (last_observation net (url_2y key)) (\<lambda>data_2y.
     py_bind (last_observation net (url_10y key)) (\<lambda>data_10y.
     py_lift (bind_e (bind_e (getitem data_2y (Key ''value'')) (py_float sf)) (\<lambda>y2.
              bind_e (bind_e (getitem data_10y (Key ''value'')) (py_float sf)) (\<lambda>y10.
              let spread = float_sub y10 y2 in Inr (Some (y2, y10, spread)))))))"

definition check_yield_curve :: "(string \<Rightarrow> pyfloat option) \<Rightarrow> string \<Rightarrow> network \<Rightarrow> (pyfloat \<times> pyfloat \<times> pyfloat) option py" where
  "check_yield_curve sf key net =
     (if key = [] then py_return None
      else py_try (check_yield_curve_try sf key net)
             (\<lambda>e. py_bind (log_msg (Error_YC e)) (\<lambda>_. py_return None)))"

section \<open>The monitor loop\<close>

text \<open>
  The three checks of one pass through the loop body, then the sleep. The price and the
  average go through \<open>:.2f\<close> before the line is logged; the literal \<open>-0.75\<close> is a double.
\<close>

definition vix_check :: "network \<Rightarrow> unit py" where
  "vix_check net =
     py_bind (check_vix net) (\<lambda>vix.
       if truthy vix then
         py_bind (py_lift (py_gt vix (PyInt 45))) (\<lambda>above45.
           if above45 then log_msg (VIX_ALERT vix)
           else py_bind (py_lift (py_gt vix (PyInt 25))) (\<lambda>above25.
             if above25 then log_msg (VIX_Warning vix)
             else log_msg (VIX_Normal vix)))
       else py_return ())"

definition sp500_check :: "network \<Rightarrow> unit py" where
  "sp500_check net =
     py_bind (check_sp500_200ma net) (\<lambda>sp500.
       case sp500 of
         None \<Rightarrow> py_return ()
       | Some (price, ma200) \<Rightarrow>
           py_bind (py_lift (py_lt price (PyFloat ma200))) (\<lambda>below.
           py_bind (py_lift (bind_e (case num_of price of
                                       None \<Rightarrow> Inl TypeError
                                     | Some p \<Rightarrow> format_2f p)
                               (\<lambda>_. format_2f (PyFloat ma200)))) (\<lambda>_.
             if below then log_msg (SP500_Below price ma200)
             else log_msg (SP500_Above price ma200))))"

definition yield_curve_check :: "(string \<Rightarrow> pyfloat option) \<Rightarrow> string \<Rightarrow> network \<Rightarrow> unit py" where
  "yield_curve_check sf key net =
     py_bind (check_yield_curve sf key net) (\<lambda>yc.
       case yc of
         None \<Rightarrow> py_return ()
       | Some (y2, y10, spread) \<Rightarrow>
           if float_less spread (Finite (- 0.75)) then log_msg (YC_Deep_Inversion y2 y10 spread)
           else log_msg (YC_Normal spread))"

definition monitor_cycle :: "(string \<Rightarrow> pyfloat option) \<Rightarrow> settings \<Rightarrow> network \<Rightarrow> unit py" where
  "monitor_cycle sf cfg net =
     py_bind (vix_check net) (\<lambda>_.
     py_bind (sp500_check net) (\<lambda>_.
     py_bind (yield_curve_check sf (FRED_API_KEY cfg) net) (\<lambda>_.
     sleep (CHECK_INTERVAL_MINUTES cfg * 60))))"

text \<open>
  \<open>while True\<close> never returns: \<open>monitor_loop n\<close> is its first \<open>n\<close> passes, \<open>Inr ()\<close>
  meaning that the loop is still running after them and \<open>Inl e\<close> that a pass raised.
\<close>

fun monitor_loop :: "nat \<Rightarrow> (string \<Rightarrow> pyfloat option) \<Rightarrow> settings \<Rightarrow> network \<Rightarrow> unit py" where
  "monitor_loop 0 sf cfg net = py_return ()"
| "monitor_loop (Suc n) sf cfg net =
     py_bind (monitor_cycle sf cfg net) (\<lambda>_. monitor_loop n sf cfg net)"

definition run_monitor :: "nat \<Rightarrow> (string \<Rightarrow> pyfloat option) \<Rightarrow> settings \<Rightarrow> network \<Rightarrow> unit py" where
  "run_monitor n sf cfg net =
     py_bind (log_msg Monitor_Started) (\<lambda>_. monitor_loop n sf cfg net)"

text \<open>The process: the module-level configuration, then \<open>run_monitor()\<close>.\<close>

definition main :: "nat \<Rightarrow> (string \<Rightarrow> int option) \<Rightarrow> (string \<Rightarrow> pyfloat option) \<Rightarrow> (string \<rightharpoonup> string) \<Rightarrow> network \<Rightarrow> unit py" where
  "main n si sf env net =
     (case load_settings si env of
        Inl e \<Rightarrow> py_raise e
      | Inr cfg \<Rightarrow> run_monitor n sf cfg net)"


section \<open>Example inputs\<close>

text \<open>
  A fresh world; networks that answer by URL (status 200 and the given document, no
  answer for any other URL), with one fixed response, or not at all; documents of the
  shape the two upstream services send; the doubles that \<open>float\<close> reads from six decimal
  strings (0.80 and 0.05 are no doubles, the nearest ones are given); an \<open>int\<close> beyond the
  range of the doubles; one configuration.
\<close>

definition w0 :: world where
  "w0 = \<lparr>sent = [], logfile = [], slept = []\<rparr>"

definition route :: "(string \<times> json) list \<Rightarrow> network" where
  "route table n rq =
     (case map_of table (url rq) of
        None \<Rightarrow> Failed
      | Some j \<Rightarrow> Responded \<lparr>status_code = 200, content = [], json_body = Some j\<rparr>)"

definition answer :: "int \<Rightarrow> string \<Rightarrow> json option \<Rightarrow> network" where
  "answer s body j n rq = Responded \<lparr>status_code = s, content = body, json_body = j\<rparr>"

definition offline :: network where
  "offline n rq = Failed"

definition yahoo_vix :: "json \<Rightarrow> json" where
  "yahoo_vix v =
     JObj [(''chart'', JObj [(''result'', JArr [JObj [(''meta'', JObj [(''regularMarketPrice'', v)])]])])]"

definition yahoo_closes :: "json \<Rightarrow> json" where
  "yahoo_closes cs =
     JObj [(''chart'', JObj [(''result'', JArr [JObj [(''indicators'',
       JObj [(''quote'', JArr [JObj [(''close'', cs)]])])]])])]"

definition fred_observations :: "string \<Rightarrow> json" where
  "fred_observations v = JObj [(''observations'', JArr [JObj [(''value'', JStr v)]])]"

definition fred :: "string \<Rightarrow> string \<Rightarrow> string \<Rightarrow> network" where
  "fred key v2 v10 =
     route [(url_2y key, fred_observations v2), (url_10y key, fred_observations v10)]"

definition float_table :: "string \<Rightarrow> pyfloat option" where
  "float_table s =
     (if s = ''4.50'' then Some (Finite 4.5) else if s = ''3.75'' then Some (Finite 3.75)
      else if s = ''5.00'' then Some (Finite 5) else if s = ''4.00'' then Some (Finite 4)
      else if s = ''0.80'' then Some (Finite (3602879701896397 / 2 ^ 52))
      else if s = ''0.05'' then Some (Finite (3602879701896397 / 2 ^ 56))
      else None)"


definition example_settings :: settings where
  "example_settings =
     \<lparr>FRED_API_KEY = ''k'', LOG_FILE = ''market_triggers.log'', CHECK_INTERVAL_MINUTES = 30\<rparr>"

section \<open>Notions of the specification\<close>

text \<open>A success status as the specification words it: any 2xx.\<close>

definition success_2xx :: "int \<Rightarrow> bool" where
  "success_2xx s = (200 \<le> s \<and> s < 300)"




text \<open>
  Following a path of keys and indices into a document: the value at its end, or a key or
  index that the document does not have, or an object on the way that has no items.
\<close>

datatype lookup = Value json | Missing_Key | Not_Subscriptable

fun follow :: "json \<Rightarrow> subscript list \<Rightarrow> lookup" where
  "follow j [] = Value j"
| "follow (JObj kvs) (Key k # p) =
     (case map_of kvs k of None \<Rightarrow> Missing_Key | Some v \<Rightarrow> follow v p)"
| "follow (JArr xs) (Idx i # p) =
     (case py_index xs i of Inl e \<Rightarrow> Missing_Key | Inr v \<Rightarrow> follow v p)"
| "follow j (s # p) = Not_Subscriptable"

definition VIX_PATH :: "subscript list" where
  "VIX_PATH = [Key ''chart'', Key ''result'', Idx 0, Key ''meta'', Key ''regularMarketPrice'']"

section \<open>Results that need no rounding\<close>

text \<open>
  A real with a significand of at most 53 bits and an exponent in range is a double, and
  rounding leaves it as it is.
\<close>

lemma round_half_even_int: "round_half_even (of_int n) = n"
  by (simp add: round_half_even_def)

lemma powi_powr: "(2::real) powi e = 2 powr (of_int e)"
  by (simp add: powr_real_of_int power_int_def power_inverse field_simps)

lemma floor_log2_eq:
  assumes "2 powi e \<le> \<bar>x\<bar>" and "\<bar>x\<bar> < 2 powi (e + 1)"
  shows "\<lfloor>log 2 \<bar>x\<bar>\<rfloor> = e"
proof -
  have "0 < (2::real) powi e"
    by simp
  then have pos: "0 < \<bar>x\<bar>"
    using assms(1) by linarith
  have a: "of_int e \<le> log 2 \<bar>x\<bar>"
    using assms(1) pos by (simp add: powi_powr le_log_iff)
  have b: "log 2 \<bar>x\<bar> < of_int (e + 1)"
    using assms(2) pos by (simp only: powi_powr log_less_iff)
  from a b show ?thesis by linarith
qed

lemma ulp_exponent_le:
  assumes "\<bar>m\<bar> < 2 ^ 53" and "- 1074 \<le> k"
  shows "ulp_exponent (of_int m * 2 powi k) \<le> k"
proof (cases "\<bar>of_int m * 2 powi k :: real\<bar> < 2 powi (- 1022)")
  case True
  then show ?thesis using assms(2) by (simp add: ulp_exponent_def)
next
  case False
  let ?x = "of_int m * 2 powi k :: real"
  have "0 < (2::real) powi (- 1022)"
    by simp
  then have pos: "0 < \<bar>?x\<bar>"
    using False by linarith
  have "\<bar>?x\<bar> = of_int \<bar>m\<bar> * 2 powi k"
    by (simp add: abs_mult)
  also have "\<dots> < 2 ^ 53 * 2 powi k"
  proof -
    have "(of_int \<bar>m\<bar> :: real) < 2 ^ 53"
      using assms(1) by (metis of_int_less_numeral_power_cancel_iff)
    then show ?thesis by (simp add: mult_strict_right_mono)
  qed
  also have "\<dots> = 2 powi (53 + k)"
    by (simp add: power_int_add)
  finally have "log 2 \<bar>?x\<bar> < of_int (53 + k)"
    using pos by (simp only: powi_powr log_less_iff)
  then have "\<lfloor>log 2 \<bar>?x\<bar>\<rfloor> < 53 + k"
    by linarith
  then show ?thesis using False by (simp add: ulp_exponent_def)
qed

lemma round_double_exact:
  assumes "\<bar>m\<bar> < 2 ^ 53" and "- 1074 \<le> k"
  shows "round_double (of_int m * 2 powi k) = of_int m * 2 powi k"
proof -
  let ?x = "of_int m * 2 powi k :: real"
  let ?u = "ulp_exponent ?x"
  have u: "?u \<le> k" using assms by (rule ulp_exponent_le)
  have "?x / 2 powi ?u = of_int m * 2 powi (k - ?u)"
    by (simp add: power_int_diff)
  also have "\<dots> = of_int (m * 2 ^ nat (k - ?u))"
    using u by (simp add: power_int_def)
  finally have "round_half_even (?x / 2 powi ?u) = m * 2 ^ nat (k - ?u)"
    by (simp only: round_half_even_int)
  then have "round_double ?x = of_int (m * 2 ^ nat (k - ?u)) * 2 powi ?u"
    by (simp add: round_double_def)
  also have "\<dots> = of_int m * (2 powi (k - ?u) * 2 powi ?u)"
    using u by (simp add: power_int_def)
  also have "2 powi (k - ?u) * 2 powi ?u = (2::real) powi k"
    by (simp flip: power_int_add)
  finally show ?thesis .
qed

lemma float_of_real_exact:
  assumes "\<bar>m\<bar> < 2 ^ 53" and "- 1074 \<le> k" and "\<bar>of_int m * 2 powi k :: real\<bar> < 2 ^ 1024"
  shows "float_of_real (of_int m * 2 powi k) = Finite (of_int m * 2 powi k)"
proof -
  define B :: real where "B = 2 ^ 1024"
  define x :: real where "x = of_int m * 2 powi k"
  have r: "round_double x = x"
    unfolding x_def by (rule round_double_exact [OF assms(1,2)])
  have "\<bar>x\<bar> < B"
    using assms(3) unfolding B_def x_def .
  then have b: "x < B" "- B < x"
    by linarith+
  have "float_of_real x = (if B \<le> x then PInf else if x \<le> - B then NInf else Finite x)"
    unfolding float_of_real_def Let_def r B_def ..
  with b show ?thesis
    unfolding x_def by simp
qed

lemma float_of_real_int:
  assumes "\<bar>i\<bar> < 2 ^ 53"
  shows "float_of_real (of_int i) = Finite (of_int i)"
proof -
  have "\<bar>of_int i :: real\<bar> < 2 ^ 53"
    using assms by (metis of_int_abs of_int_less_numeral_power_cancel_iff)
  also have "\<dots> < (2::real) ^ 1024"
    by (rule power_strict_increasing) simp_all
  finally show ?thesis
    using float_of_real_exact [OF assms, of 0] by simp
qed

lemma float_of_real_minus_1: "float_of_real (- 1) = Finite (- 1)"
  using float_of_real_int [of "- 1"] by simp


lemma float_of_real_minus_three_quarters: "float_of_real (- (3 / 4)) = Finite (- (3 / 4))"
  using float_of_real_exact [of "- 3" "- 2"] by simp

lemma float_sub_375_45: "float_sub (Finite 3.75) (Finite 4.5) = Finite (- 0.75)"
  by (simp add: float_sub_def float_of_real_minus_three_quarters)

lemma float_sub_4_5: "float_sub (Finite 4) (Finite 5) = Finite (- 1)"
  by (simp add: float_sub_def float_of_real_minus_1)



lemma round_double_near_three_quarters:
  "round_double (- (54043195528445955 / 2 ^ 56)) = - (3 / 4)"
proof -
  let ?x = "- (54043195528445955 / 2 ^ 56) :: real"
  have "\<lfloor>log 2 \<bar>?x\<bar>\<rfloor> = - 1"
    by (rule floor_log2_eq) simp_all
  moreover have "\<not> \<bar>?x\<bar> < 2 powi (- 1022)"
    by (simp add: power_int_minus)
  ultimately have u: "ulp_exponent ?x = - 53"
    by (simp only: ulp_exponent_def if_False) simp
  have q: "?x / 2 powi (- 53) = - (54043195528445955 / 8)"
    by (simp add: power_int_minus)
  have "round_half_even (- (54043195528445955 / 8)) = - 6755399441055744"
    by (simp add: round_half_even_def Let_def)
  then show ?thesis
    by (simp only: round_double_def u q) (simp add: power_int_minus)
qed

lemma float_sub_005_080:
  "float_sub (Finite (3602879701896397 / 2 ^ 56)) (Finite (3602879701896397 / 2 ^ 52)) = Finite (- 0.75)"
proof -
  have "3602879701896397 / 2 ^ 56 + - (3602879701896397 / 2 ^ 52) = (- (54043195528445955 / 2 ^ 56) :: real)"
    by simp
  then show ?thesis
    unfolding float_sub_def float_neg.simps float_add.simps float_of_real_def Let_def
    by (simp only: round_double_near_three_quarters) simp
qed

section \<open>What the fetchers return and log\<close>

lemma get_eq:
  "get net u t w =
     ((case net (length (sent w)) \<lparr>url = u, headers = Some HEADERS, timeout = Some t\<rparr> of
         Failed \<Rightarrow> Inl RequestException
       | Responded r \<Rightarrow>
           if status_code r \<noteq> 200 then Inl (HTTPError (status_code r) (bytes_str (content r)))
           else response_json r),
      w\<lparr>sent := sent w @ [\<lparr>url = u, headers = Some HEADERS, timeout = Some t\<rparr>]\<rparr>)"
  by (simp add: get_def py_bind_def requests_get_def py_raise_def py_lift_def split: net_result.splits)

lemma logfile_get: "logfile (snd (get net u t w)) = logfile w"
  by (simp add: get_eq)


lemma check_vix_try_eq:
  "check_vix_try net w = (bind_e (fst (get net VIX_URL 30 w)) vix_lookup, snd (get net VIX_URL 30 w))"
  by (simp add: check_vix_try_def py_bind_def py_lift_def bind_e_def split: prod.splits sum.splits)

lemma logfile_check_vix_try: "logfile (snd (check_vix_try net w)) = logfile w"
  by (simp add: check_vix_try_eq logfile_get)

lemma check_vix_eq:
  "check_vix net w =
     (case fst (check_vix_try net w) of
        Inl e \<Rightarrow> (Inr JNull, (snd (check_vix_try net w))\<lparr>logfile := logfile w @ [Error_VIX e]\<rparr>)
      | Inr v \<Rightarrow> (Inr v, snd (check_vix_try net w)))"
  using logfile_check_vix_try [of net w]
  by (auto simp: check_vix_def py_try_def py_bind_def log_msg_def py_return_def
      split: prod.splits sum.splits)

lemma check_sp500_200ma_try_eq:
  "check_sp500_200ma_try net w =
     (bind_e (fst (get net SP500_URL 30 w)) (\<lambda>data. bind_e (closes_lookup data) ma200_of_closes),
      snd (get net SP500_URL 30 w))"
  by (simp add: check_sp500_200ma_try_def py_bind_def py_lift_def bind_e_def split: prod.splits sum.splits)

lemma logfile_check_sp500_200ma_try: "logfile (snd (check_sp500_200ma_try net w)) = logfile w"
  by (simp add: check_sp500_200ma_try_eq logfile_get)

lemma check_sp500_200ma_eq:
  "check_sp500_200ma net w =
     (case fst (check_sp500_200ma_try net w) of
        Inl e \<Rightarrow> (Inr None, (snd (check_sp500_200ma_try net w))\<lparr>logfile := logfile w @ [Error_SP500 e]\<rparr>)
      | Inr v \<Rightarrow> (Inr v, snd (check_sp500_200ma_try net w)))"
  using logfile_check_sp500_200ma_try [of net w]
  by (auto simp: check_sp500_200ma_def py_try_def py_bind_def log_msg_def py_return_def
      split: prod.splits sum.splits)

lemma logfile_last_observation: "logfile (snd (last_observation net u w)) = logfile w"
  by (simp add: last_observation_def py_bind_def requests_get_def py_lift_def split: net_result.splits)

lemma logfile_check_yield_curve_try: "logfile (snd (check_yield_curve_try sf key net w)) = logfile w"
  unfolding check_yield_curve_try_def py_bind_def py_lift_def
  using logfile_last_observation
  by (auto split: prod.splits sum.splits) (metis snd_conv)+

lemma check_yield_curve_eq:
  "key \<noteq> [] \<Longrightarrow> check_yield_curve sf key net w =
     (case fst (check_yield_curve_try sf key net w) of
        Inl e \<Rightarrow> (Inr None, (snd (check_yield_curve_try sf key net w))\<lparr>logfile := logfile w @ [Error_YC e]\<rparr>)
      | Inr v \<Rightarrow> (Inr v, snd (check_yield_curve_try sf key net w)))"
  using logfile_check_yield_curve_try [of sf key net w]
  by (auto simp: check_yield_curve_def py_try_def py_bind_def log_msg_def py_return_def
      split: prod.splits sum.splits)

section \<open>Classification of the volatility index\<close>

lemma vix_check_thresholds:
  assumes "fst (check_vix net w) = Inr (JNum (PyFloat (Finite v)))" and "v \<noteq> 0"
  shows "vix_check net w =
           log_msg (if 45 < v then VIX_ALERT (JNum (PyFloat (Finite v)))
                    else if 25 < v then VIX_Warning (JNum (PyFloat (Finite v)))
                    else VIX_Normal (JNum (PyFloat (Finite v)))) (snd (check_vix net w))"
  using assms
  by (cases "check_vix net w")
     (simp add: vix_check_def py_bind_def py_lift_def py_gt_def number_less_def)

text \<open>
  C1 fails at \<open>v = 0\<close>: the fetcher returns the price 0 of the quote, which is at most
  25, and the loop's test \<open>if vix:\<close> takes it for no value, so that nothing is logged for
  it, no "VIX Normal" line either. (For every other finite value the three ranges and
  both boundaries are as the claim says: \<open>vix_check_thresholds\<close>.)
\<close>

theorem vix_zero_not_classified:
  "fst (check_vix (route [(VIX_URL, yahoo_vix (JNum (PyInt 0)))]) w0) = Inr (JNum (PyInt 0)) \<and>
   logfile (snd (vix_check (route [(VIX_URL, yahoo_vix (JNum (PyInt 0)))]) w0)) = []"
  by (simp add: vix_check_def check_vix_eq check_vix_try_eq get_eq route_def yahoo_vix_def
      vix_lookup_def bind_e_def py_index_def response_json_def py_bind_def py_return_def w0_def)

section \<open>The 200-day moving average\<close>





lemma ma200_of_closes_insufficient:
  "length (filter (\<lambda>c. c \<noteq> JNull) cs) < 200 \<Longrightarrow> ma200_of_closes (JArr cs) = Inr None"
  by (simp add: ma200_of_closes_def bind_e_def)












section \<open>The yield curve\<close>

lemma check_yield_curve_try_spread:
  "fst (check_yield_curve_try sf key net w) = Inr (Some (y2, y10, spread)) \<Longrightarrow>
     spread = float_sub y10 y2"
  unfolding check_yield_curve_try_def py_bind_def py_lift_def bind_e_def
  by (auto simp: Let_def split: prod.splits sum.splits)

lemma check_yield_curve_empty_key: "check_yield_curve sf [] net w = (Inr None, w)"
  by (simp add: check_yield_curve_def py_return_def)

lemma check_yield_curve_fred:
  "sf v2 = Some y2 \<Longrightarrow> sf v10 = Some y10 \<Longrightarrow>
     check_yield_curve sf ''k'' (fred ''k'' v2 v10) w0 =
       (Inr (Some (y2, y10, float_sub y10 y2)),
        \<lparr>sent = [\<lparr>url = url_2y ''k'', headers = None, timeout = None\<rparr>,
                 \<lparr>url = url_10y ''k'', headers = None, timeout = None\<rparr>],
         logfile = [], slept = []\<rparr>)"
  by (simp add: check_yield_curve_def py_try_def check_yield_curve_try_def last_observation_def
      py_bind_def py_lift_def
      requests_get_def response_json_def bind_e_def py_index_def fred_def route_def
      fred_observations_def url_2y_def url_10y_def w0_def)

text \<open>
  C3: whenever the yield-curve fetcher returns a triple, its third component is the 10-year
  yield minus the 2-year yield (the difference of the two floats, as Python computes it),
  and the monitor loop logs the deep inversion line exactly when the spread is below
  \<open>-0.75\<close>, the normal/steepening line otherwise; yields of 4.50 and 3.75 give the spread
  \<open>-0.75\<close> exactly and the normal/steepening line.
\<close>

theorem yield_curve_spread_and_inversion:
  assumes "fst (check_yield_curve sf key net w) = Inr (Some (y2, y10, spread))"
  shows "spread = float_sub y10 y2 \<and>
         fst (yield_curve_check sf key net w) = Inr () \<and>
         (logfile (snd (yield_curve_check sf key net w)) =
            logfile (snd (check_yield_curve sf key net w)) @ [YC_Deep_Inversion y2 y10 spread]
          \<longleftrightarrow> float_less spread (Finite (- 0.75))) \<and>
         (logfile (snd (yield_curve_check sf key net w)) =
            logfile (snd (check_yield_curve sf key net w)) @ [YC_Normal spread]
          \<longleftrightarrow> \<not> float_less spread (Finite (- 0.75))) \<and>
         (y2 = Finite 4.50 \<and> y10 = Finite 3.75 \<longrightarrow>
            spread = Finite (- 0.75) \<and>
            logfile (snd (yield_curve_check sf key net w)) =
              logfile (snd (check_yield_curve sf key net w)) @ [YC_Normal (Finite (- 0.75))])"
proof -
  have k: "key \<noteq> []"
    using assms by (auto simp: check_yield_curve_def py_return_def)
  have "fst (check_yield_curve_try sf key net w) = Inr (Some (y2, y10, spread))"
    using assms by (simp add: check_yield_curve_eq [OF k] split: sum.splits)
  then have s: "spread = float_sub y10 y2"
    by (rule check_yield_curve_try_spread)
  have c: "yield_curve_check sf key net w =
             log_msg (if float_less spread (Finite (- 0.75))
                      then YC_Deep_Inversion y2 y10 spread else YC_Normal spread)
               (snd (check_yield_curve sf key net w))"
    using assms by (cases "check_yield_curve sf key net w") (simp add: yield_curve_check_def py_bind_def)
  have e: "y2 = Finite 4.50 \<and> y10 = Finite 3.75 \<longrightarrow> spread = Finite (- 0.75)"
    using s float_sub_375_45 by simp
  show ?thesis
    using s e by (auto simp: c log_msg_def)
qed

text \<open>
  The example of the claim, on observations "4.50" and "3.75"; and observations "0.80" and
  "0.05", where the exact difference of the two doubles is below \<open>-0.75\<close> and rounds to it.
\<close>

theorem yield_curve_spread_and_inversion_witness:
  "fst (check_yield_curve float_table ''k'' (fred ''k'' ''4.50'' ''3.75'') w0) =
     Inr (Some (Finite 4.5, Finite 3.75, Finite (- 0.75))) \<and>
   logfile (snd (yield_curve_check float_table ''k'' (fred ''k'' ''4.50'' ''3.75'') w0)) =
     [YC_Normal (Finite (- 0.75))] \<and>
   logfile (snd (yield_curve_check float_table ''k'' (fred ''k'' ''0.80'' ''0.05'') w0)) =
     [YC_Normal (Finite (- 0.75))]"
proof -
  have a: "check_yield_curve float_table ''k'' (fred ''k'' ''4.50'' ''3.75'') w0 =
             (Inr (Some (Finite 4.5, Finite 3.75, Finite (- 0.75))),
              \<lparr>sent = [\<lparr>url = url_2y ''k'', headers = None, timeout = None\<rparr>,
                       \<lparr>url = url_10y ''k'', headers = None, timeout = None\<rparr>],
               logfile = [], slept = []\<rparr>)"
    using check_yield_curve_fred [of float_table "''4.50''" "Finite 4.5" "''3.75''" "Finite 3.75"]
      float_sub_375_45
    by (simp add: float_table_def)
  have b: "check_yield_curve float_table ''k'' (fred ''k'' ''0.80'' ''0.05'') w0 =
             (Inr (Some (Finite (3602879701896397 / 2 ^ 52), Finite (3602879701896397 / 2 ^ 56),
                         Finite (- 0.75))),
              \<lparr>sent = [\<lparr>url = url_2y ''k'', headers = None, timeout = None\<rparr>,
                       \<lparr>url = url_10y ''k'', headers = None, timeout = None\<rparr>],
               logfile = [], slept = []\<rparr>)"
    using check_yield_curve_fred [of float_table "''0.80''" "Finite (3602879701896397 / 2 ^ 52)"
        "''0.05''" "Finite (3602879701896397 / 2 ^ 56)"]
    by (simp only: float_sub_005_080) (simp add: float_table_def)
  have a': "fst (check_yield_curve float_table ''k'' (fred ''k'' ''4.50'' ''3.75'') w0) =
              Inr (Some (Finite 4.5, Finite 3.75, Finite (- 0.75)))"
    by (simp add: a)
  have b': "fst (check_yield_curve float_table ''k'' (fred ''k'' ''0.80'' ''0.05'') w0) =
              Inr (Some (Finite (3602879701896397 / 2 ^ 52), Finite (3602879701896397 / 2 ^ 56),
                         Finite (- 0.75)))"
    by (simp only: b fst_conv)
  have n1: "logfile (snd (yield_curve_check float_table ''k'' (fred ''k'' ''4.50'' ''3.75'') w0)) =
              [YC_Normal (Finite (- 0.75))]"
    using yield_curve_spread_and_inversion
      [OF a', THEN conjunct2, THEN conjunct2, THEN conjunct2, THEN conjunct1]
    by (simp add: a)
  have n2: "logfile (snd (yield_curve_check float_table ''k'' (fred ''k'' ''0.80'' ''0.05'') w0)) =
              [YC_Normal (Finite (- 0.75))]"
    using yield_curve_spread_and_inversion
      [OF b', THEN conjunct2, THEN conjunct2, THEN conjunct2, THEN conjunct1]
    by (simp add: b)
  from a' n1 n2 show ?thesis
    by simp
qed

section \<open>One pass of the monitor loop\<close>

text \<open>
  C4 fails at a VIX quote of 0: the fetcher returns the value 0, the loop's \<open>if vix:\<close>
  takes it for no value and logs no line for the VIX in that pass, while the other two
  indicators run and log (here the S&P 500 request is not answered and the spread is -1).
\<close>

theorem monitor_cycle_skips_vix_zero:
  "fst (check_vix (route [(VIX_URL, yahoo_vix (JNum (PyInt 0))),
                          (url_2y ''k'', fred_observations ''5.00''),
                          (url_10y ''k'', fred_observations ''4.00'')]) w0) = Inr (JNum (PyInt 0)) \<and>
   fst (monitor_cycle float_table example_settings
          (route [(VIX_URL, yahoo_vix (JNum (PyInt 0))),
                  (url_2y ''k'', fred_observations ''5.00''),
                  (url_10y ''k'', fred_observations ''4.00'')]) w0) = Inr () \<and>
   logfile (snd (monitor_cycle float_table example_settings
          (route [(VIX_URL, yahoo_vix (JNum (PyInt 0))),
                  (url_2y ''k'', fred_observations ''5.00''),
                  (url_10y ''k'', fred_observations ''4.00'')]) w0)) =
     [Error_SP500 RequestException, YC_Deep_Inversion (Finite 5) (Finite 4) (Finite (- 1))]"
  by (simp add: monitor_cycle_def vix_check_def sp500_check_def yield_curve_check_def
      check_vix_def check_vix_try_def check_sp500_200ma_def check_sp500_200ma_try_def get_def
      vix_lookup_def yahoo_vix_def example_settings_def sleep_def log_msg_def py_return_def
      py_raise_def VIX_URL_def SP500_URL_def
      check_yield_curve_def py_try_def check_yield_curve_try_def last_observation_def
      py_bind_def py_lift_def
      requests_get_def response_json_def bind_e_def py_index_def route_def
      fred_observations_def url_2y_def url_10y_def float_table_def w0_def float_sub_4_5)

section \<open>The HTTP wrapper\<close>

text \<open>
  C5, as stated, fails at status 201: a 2xx status, and \<open>get\<close> raises \<open>HTTPError\<close>
  although the body is well-formed JSON.
\<close>

theorem get_raises_on_201:
  "success_2xx 201 \<and>
   fst (get (answer 201 ''{}'' (Some (JObj []))) VIX_URL 30 w0) = Inl (HTTPError 201 (bytes_str ''{}''))"
  by (simp add: success_2xx_def get_eq answer_def)

text \<open>
  C5, amended: on a response, \<open>get\<close> raises \<open>HTTPError\<close> iff the status is not 200,
  and the error then carries the status and the body (as \<open>str\<close> renders the bytes); on
  status 200 with a well-formed JSON body it returns the parsed body unchanged.
\<close>

theorem get_raises_iff_not_200:
  assumes "net (length (sent w)) \<lparr>url = u, headers = Some HEADERS, timeout = Some t\<rparr> = Responded r"
  shows "((\<exists>s m. fst (get net u t w) = Inl (HTTPError s m)) \<longleftrightarrow> status_code r \<noteq> 200) \<and>
         (status_code r \<noteq> 200 \<longrightarrow>
            fst (get net u t w) = Inl (HTTPError (status_code r) (bytes_str (content r)))) \<and>
         (\<forall>j. status_code r = 200 \<and> json_body r = Some j \<longrightarrow> fst (get net u t w) = Inr j)"
  using assms by (auto simp: get_eq response_json_def split: option.splits)

text \<open>Status 404 raises \<open>HTTPError\<close> with status 404; status 200 returns the parsed body.\<close>

theorem get_raises_iff_not_200_witness:
  "fst (get (answer 404 ''Not Found'' None) VIX_URL 30 w0) = Inl (HTTPError 404 (bytes_str ''Not Found'')) \<and>
   fst (get (answer 200 ''{}'' (Some (JObj []))) VIX_URL 30 w0) = Inr (JObj [])"
proof -
  have a: "answer 404 ''Not Found'' None (length (sent w0))
             \<lparr>url = VIX_URL, headers = Some HEADERS, timeout = Some 30\<rparr> =
           Responded \<lparr>status_code = 404, content = ''Not Found'', json_body = None\<rparr>"
    by (simp add: answer_def)
  have b: "answer 200 ''{}'' (Some (JObj [])) (length (sent w0))
             \<lparr>url = VIX_URL, headers = Some HEADERS, timeout = Some 30\<rparr> =
           Responded \<lparr>status_code = 200, content = ''{}'', json_body = Some (JObj [])\<rparr>"
    by (simp add: answer_def)
  from get_raises_iff_not_200 [where net = "answer 404 ''Not Found'' None" and w = w0, OF a]
    get_raises_iff_not_200 [where net = "answer 200 ''{}'' (Some (JObj []))" and w = w0, OF b]
  show ?thesis by simp
qed

section \<open>Configuration and requests of the yield-curve fetcher\<close>

text \<open>
  C6 fails where no \<open>FRED_API_KEY\<close> is configured: the option has no default, so
  reading the configuration raises \<open>UndefinedValueError\<close> and the process ends before
  \<open>run_monitor\<close> starts. (With an empty key the fetcher does return without a request:
  \<open>check_yield_curve_empty_key\<close>.)
\<close>

theorem main_without_key_fails_at_startup:
  "load_settings si Map.empty = Inl (UndefinedValueError ''FRED_API_KEY'') \<and>
   main n si sf Map.empty net w0 = (Inl (UndefinedValueError ''FRED_API_KEY''), w0)"
  by (simp add: main_def load_settings_def config_def bind_e_def py_raise_def)

lemma get_sends_headers_and_timeout:
  "sent (snd (get net u t w)) = sent w @ [\<lparr>url = u, headers = Some HEADERS, timeout = Some t\<rparr>]"
  by (simp add: get_eq)

text \<open>
  C9 fails on the two FRED requests: \<open>check_yield_curve\<close> calls \<open>requests.get\<close> itself,
  with no headers and no timeout, where the other two fetchers go through \<open>get\<close>
  (\<open>get_sends_headers_and_timeout\<close>).
\<close>

theorem fred_requests_without_headers_and_timeout:
  "sent (snd (check_yield_curve float_table ''k'' (fred ''k'' ''4.50'' ''3.75'') w0)) =
     [\<lparr>url = url_2y ''k'', headers = None, timeout = None\<rparr>,
      \<lparr>url = url_10y ''k'', headers = None, timeout = None\<rparr>]"
  by (simp add: check_yield_curve_def py_try_def check_yield_curve_try_def last_observation_def
      py_bind_def py_lift_def
      requests_get_def response_json_def bind_e_def py_index_def fred_def route_def
      fred_observations_def url_2y_def url_10y_def float_table_def w0_def)

section \<open>Failure isolation\<close>

text \<open>
  C7: none of the three fetchers raises, whatever the network answers; and whenever
  something raises inside a fetcher's \<open>try\<close> block (no response, a status other than
  200, a missing key, a malformed document, a value that \<open>float\<close> cannot read), the
  fetcher returns \<open>None\<close>.
\<close>

theorem fetchers_never_raise:
  "(\<exists>v. fst (check_vix net w) = Inr v) \<and>
   (\<exists>r. fst (check_sp500_200ma net w) = Inr r) \<and>
   (\<exists>r. fst (check_yield_curve sf key net w) = Inr r) \<and>
   (\<forall>e. fst (check_vix_try net w) = Inl e \<longrightarrow> fst (check_vix net w) = Inr JNull) \<and>
   (\<forall>e. fst (check_sp500_200ma_try net w) = Inl e \<longrightarrow> fst (check_sp500_200ma net w) = Inr None) \<and>
   (\<forall>e. fst (check_yield_curve_try sf key net w) = Inl e \<longrightarrow>
        fst (check_yield_curve sf key net w) = Inr None)"
proof -
  have yc: "fst (check_yield_curve sf key net w) =
              (if key = [] then Inr None
               else case fst (check_yield_curve_try sf key net w) of
                      Inl e \<Rightarrow> Inr None | Inr v \<Rightarrow> Inr v)"
  proof (cases "key = []")
    case True
    then show ?thesis by (simp add: check_yield_curve_def py_return_def)
  next
    case False
    then show ?thesis by (simp add: check_yield_curve_eq split: sum.splits)
  qed
  show ?thesis
    by (auto simp: check_vix_eq check_sp500_200ma_eq yc split: sum.splits)
qed

text \<open>
  No response for the VIX, status 500 for the S&P 500, and the marker "." as the latest
  2-year observation.
\<close>

theorem fetchers_never_raise_witness:
  "fst (check_vix_try offline w0) = Inl RequestException \<and>
   fst (check_vix offline w0) = Inr JNull \<and>
   fst (check_sp500_200ma_try (answer 500 ''oops'' None) w0) = Inl (HTTPError 500 (bytes_str ''oops'')) \<and>
   fst (check_sp500_200ma (answer 500 ''oops'' None) w0) = Inr None \<and>
   fst (check_yield_curve_try float_table ''k'' (fred ''k'' ''.'' ''3.75'') w0) = Inl ValueError \<and>
   fst (check_yield_curve float_table ''k'' (fred ''k'' ''.'' ''3.75'') w0) = Inr None"
proof -
  have a: "fst (check_vix_try offline w0) = Inl RequestException"
    by (simp add: check_vix_try_eq get_eq offline_def bind_e_def)
  have b: "fst (check_sp500_200ma_try (answer 500 ''oops'' None) w0) =
             Inl (HTTPError 500 (bytes_str ''oops''))"
    by (simp add: check_sp500_200ma_try_eq get_eq answer_def bind_e_def)
  have c: "fst (check_yield_curve_try float_table ''k'' (fred ''k'' ''.'' ''3.75'') w0) = Inl ValueError"
    by (simp add: check_yield_curve_try_def last_observation_def py_bind_def py_lift_def
        requests_get_def response_json_def bind_e_def py_index_def fred_def route_def
        fred_observations_def url_2y_def url_10y_def float_table_def w0_def)
  from fetchers_never_raise [of offline w0 float_table "''k''"]
    fetchers_never_raise [of "answer 500 ''oops'' None" w0 float_table "''k''"]
    fetchers_never_raise [of "fred ''k'' ''.'' ''3.75''" w0 float_table "''k''"]
  show ?thesis using a b c by simp
qed

text \<open>
  C8, as stated, fails on insufficient history: with three closes, two of them present,
  the S&P 500 fetcher returns \<open>None\<close> and logs nothing.
\<close>

theorem insufficient_history_not_logged:
  "fst (check_sp500_200ma (route [(SP500_URL, yahoo_closes (JArr [JNum (PyFloat (Finite 1)), JNull, JNum (PyFloat (Finite 2))]))]) w0) = Inr None \<and>
   logfile (snd (check_sp500_200ma (route [(SP500_URL, yahoo_closes (JArr [JNum (PyFloat (Finite 1)), JNull, JNum (PyFloat (Finite 2))]))]) w0)) = []"
  by (simp add: check_sp500_200ma_eq check_sp500_200ma_try_eq get_eq route_def yahoo_closes_def
      closes_lookup_def ma200_of_closes_def bind_e_def py_index_def response_json_def w0_def)

text \<open>
  C8, amended: every error raised inside a fetcher's \<open>try\<close> block (transport, HTTP status,
  data shape) is logged with the fetcher's prefix and the error at the point where it is
  turned into \<open>None\<close>; insufficient history (fewer than 200 closes present) returns
  \<open>None\<close> without a log line.
\<close>

theorem errors_logged_insufficient_history_silent:
  "(\<forall>e. fst (check_vix_try net w) = Inl e \<longrightarrow>
        fst (check_vix net w) = Inr JNull \<and>
        logfile (snd (check_vix net w)) = logfile w @ [Error_VIX e]) \<and>
   (\<forall>e. fst (check_sp500_200ma_try net w) = Inl e \<longrightarrow>
        fst (check_sp500_200ma net w) = Inr None \<and>
        logfile (snd (check_sp500_200ma net w)) = logfile w @ [Error_SP500 e]) \<and>
   (\<forall>e. key \<noteq> [] \<and> fst (check_yield_curve_try sf key net w) = Inl e \<longrightarrow>
        fst (check_yield_curve sf key net w) = Inr None \<and>
        logfile (snd (check_yield_curve sf key net w)) = logfile w @ [Error_YC e]) \<and>
   (\<forall>data cs. fst (get net SP500_URL 30 w) = Inr data \<and> closes_lookup data = Inr (JArr cs) \<and>
        length (filter (\<lambda>c. c \<noteq> JNull) cs) < 200 \<longrightarrow>
        fst (check_sp500_200ma net w) = Inr None \<and>
        logfile (snd (check_sp500_200ma net w)) = logfile w)"
proof -
  have "fst (check_sp500_200ma net w) = Inr None \<and> logfile (snd (check_sp500_200ma net w)) = logfile w"
    if "fst (get net SP500_URL 30 w) = Inr data" "closes_lookup data = Inr (JArr cs)"
      "length (filter (\<lambda>c. c \<noteq> JNull) cs) < 200" for data cs
  proof -
    from that have "fst (check_sp500_200ma_try net w) = Inr None"
      by (simp add: check_sp500_200ma_try_eq bind_e_def ma200_of_closes_insufficient)
    then show ?thesis
      by (simp add: check_sp500_200ma_eq logfile_check_sp500_200ma_try)
  qed
  then show ?thesis
    by (auto simp: check_vix_eq check_sp500_200ma_eq check_yield_curve_eq)
qed

text \<open>One failure of each kind, and one history of a single close.\<close>

theorem errors_logged_insufficient_history_silent_witness:
  "logfile (snd (check_vix offline w0)) = [Error_VIX RequestException] \<and>
   logfile (snd (check_sp500_200ma (answer 500 ''oops'' None) w0)) =
     [Error_SP500 (HTTPError 500 (bytes_str ''oops''))] \<and>
   logfile (snd (check_yield_curve float_table ''k'' (fred ''k'' ''.'' ''3.75'') w0)) = [Error_YC ValueError] \<and>
   logfile (snd (check_sp500_200ma (route [(SP500_URL, yahoo_closes (JArr [JNum (PyFloat (Finite 1))]))]) w0)) = []"
proof -
  have a: "fst (check_vix_try offline w0) = Inl RequestException"
    by (simp add: check_vix_try_eq get_eq offline_def bind_e_def)
  have b: "fst (check_sp500_200ma_try (answer 500 ''oops'' None) w0) =
             Inl (HTTPError 500 (bytes_str ''oops''))"
    by (simp add: check_sp500_200ma_try_eq get_eq answer_def bind_e_def)
  have c: "fst (check_yield_curve_try float_table ''k'' (fred ''k'' ''.'' ''3.75'') w0) = Inl ValueError"
    by (simp add: check_yield_curve_try_def last_observation_def py_bind_def py_lift_def
        requests_get_def response_json_def bind_e_def py_index_def fred_def route_def
        fred_observations_def url_2y_def url_10y_def float_table_def w0_def)
  have d: "fst (get (route [(SP500_URL, yahoo_closes (JArr [JNum (PyFloat (Finite 1))]))]) SP500_URL 30 w0) =
             Inr (yahoo_closes (JArr [JNum (PyFloat (Finite 1))]))"
    by (simp add: get_eq route_def response_json_def)
  have e: "closes_lookup (yahoo_closes (JArr [JNum (PyFloat (Finite 1))])) = Inr (JArr [JNum (PyFloat (Finite 1))])"
    by (simp add: closes_lookup_def yahoo_closes_def bind_e_def py_index_def)
  have l: "logfile w0 = []" by (simp add: w0_def)
  from errors_logged_insufficient_history_silent [of offline w0 "''k''" float_table]
    errors_logged_insufficient_history_silent [of "answer 500 ''oops'' None" w0 "''k''" float_table]
    errors_logged_insufficient_history_silent [of "fred ''k'' ''.'' ''3.75''" w0 "''k''" float_table]
    errors_logged_insufficient_history_silent
      [of "route [(SP500_URL, yahoo_closes (JArr [JNum (PyFloat (Finite 1))]))]" w0 "''k''" float_table]
  show ?thesis using a b c d e l by simp
qed

section \<open>A missing price and a missing key\<close>

lemma follow_Cons_Value:
  "follow j (s # p) = Value v \<Longrightarrow> \<exists>j'. getitem j s = Inr j' \<and> follow j' p = Value v"
  by (cases j; cases s) (auto split: option.splits sum.splits)

lemma follow_Cons_Missing:
  "follow j (s # p) = Missing_Key \<Longrightarrow>
     (\<exists>e. getitem j s = Inl e) \<or> (\<exists>j'. getitem j s = Inr j' \<and> follow j' p = Missing_Key)"
  by (cases j; cases s) (auto split: option.splits sum.splits)

lemma follow_vix_value: "follow data VIX_PATH = Value v \<Longrightarrow> vix_lookup data = Inr v"
  unfolding VIX_PATH_def vix_lookup_def
  by (auto dest!: follow_Cons_Value simp: bind_e_def)

lemma follow_vix_missing: "follow data VIX_PATH = Missing_Key \<Longrightarrow> \<exists>e. vix_lookup data = Inl e"
  unfolding VIX_PATH_def vix_lookup_def
  by (auto dest!: follow_Cons_Missing simp: bind_e_def)

text \<open>
  C10: on a VIX response that is parsed, if the document has the path
  \<open>chart.result[0].meta.regularMarketPrice\<close> with the value null, the VIX fetcher returns
  \<open>None\<close> and logs nothing; if a key (or the index 0) along the path is missing, it
  returns \<open>None\<close> and logs an "Error fetching VIX" line.
\<close>

theorem check_vix_null_silent_missing_logged:
  assumes "fst (get net VIX_URL 30 w) = Inr data"
  shows "(follow data VIX_PATH = Value JNull \<longrightarrow>
            fst (check_vix net w) = Inr JNull \<and> logfile (snd (check_vix net w)) = logfile w) \<and>
         (follow data VIX_PATH = Missing_Key \<longrightarrow>
            fst (check_vix net w) = Inr JNull \<and>
            (\<exists>e. logfile (snd (check_vix net w)) = logfile w @ [Error_VIX e]))"
proof (intro conjI impI)
  assume "follow data VIX_PATH = Value JNull"
  then have "fst (check_vix_try net w) = Inr JNull"
    using assms by (simp add: check_vix_try_eq bind_e_def follow_vix_value)
  then show "fst (check_vix net w) = Inr JNull" "logfile (snd (check_vix net w)) = logfile w"
    by (simp_all add: check_vix_eq logfile_check_vix_try)
next
  assume "follow data VIX_PATH = Missing_Key"
  then obtain e where "vix_lookup data = Inl e"
    using follow_vix_missing by blast
  then have "fst (check_vix_try net w) = Inl e"
    using assms by (simp add: check_vix_try_eq bind_e_def)
  then show "fst (check_vix net w) = Inr JNull"
    "\<exists>e. logfile (snd (check_vix net w)) = logfile w @ [Error_VIX e]"
    by (simp_all add: check_vix_eq)
qed

text \<open>A quote whose price is null, and a quote whose result has no \<open>meta\<close>.\<close>

theorem check_vix_null_silent_missing_logged_witness:
  "fst (check_vix (route [(VIX_URL, yahoo_vix JNull)]) w0) = Inr JNull \<and>
   logfile (snd (check_vix (route [(VIX_URL, yahoo_vix JNull)]) w0)) = [] \<and>
   fst (check_vix (route [(VIX_URL, JObj [(''chart'', JObj [(''result'', JArr [JObj []])])])]) w0) = Inr JNull \<and>
   (\<exists>e. logfile (snd (check_vix (route [(VIX_URL, JObj [(''chart'', JObj [(''result'', JArr [JObj []])])])]) w0)) =
      [Error_VIX e])"
proof -
  have g: "fst (get (route [(VIX_URL, j)]) VIX_URL 30 w0) = Inr j" for j
    by (simp add: get_eq route_def response_json_def)
  have a: "follow (yahoo_vix JNull) VIX_PATH = Value JNull"
    by (simp add: yahoo_vix_def VIX_PATH_def py_index_def)
  have b: "follow (JObj [(''chart'', JObj [(''result'', JArr [JObj []])])]) VIX_PATH = Missing_Key"
    by (simp add: VIX_PATH_def py_index_def)
  have l: "logfile w0 = []" by (simp add: w0_def)
  from check_vix_null_silent_missing_logged [OF g [of "yahoo_vix JNull"]]
    check_vix_null_silent_missing_logged
      [OF g [of "JObj [(''chart'', JObj [(''result'', JArr [JObj []])])]"]]
  show ?thesis using a b l by simp
qed


end
